theory Spec2Isabelle
  imports Main "HOL-Library.Sublist"
begin

section \<open>The completion adapter of \<open>backend/src/openai_handler.py\<close>\<close>

text \<open>
  The module holds one class, \<open>OpenAIHandler\<close>, with a class attribute
  \<open>_client_instance\<close> and three static methods: \<open>get_client\<close>,
  \<open>_initialize_client\<close> and \<open>get_response\<close>.  The class attribute is the only state
  of the process that this code owns; it is threaded through every function below.

  Everything the class calls but does not define is a collaborator and is a field of
  the record \<open>environment\<close>: the secrets provider, the constructor of the \<open>OpenAI\<close>
  client, the remote completion call, \<open>json.loads\<close> and the text conversion an f-string
  applies to a value.  Every theorem holds for every such environment.
\<close>

subsection \<open>Python values and exceptions\<close>

text \<open>
  An exception is what its catcher can observe: its class and its message.  The three
  \<open>raise ValueError(...)\<close> of \<open>get_response\<close> are \<open>ValueError\<close> with their message;
  \<open>TypeError\<close>, \<open>IndexError\<close> and \<open>KeyError\<close> are the ones the interpreter raises on
  \<open>in\<close> and on subscripting; \<open>External cls detail\<close> is an exception of class \<open>cls\<close>
  raised inside a collaborator.

  \<open>During e handled\<close> is the exception \<open>e\<close> raised inside an \<open>except\<close> block while the
  exception \<open>handled\<close> was being handled, with no \<open>from\<close> clause: Python stores \<open>handled\<close>
  in \<open>e.__context__\<close>, where the catcher of \<open>e\<close> finds it, with its class and its
  message.  \<open>context_of\<close> reads that attribute.
\<close>

datatype py_exn =
    ValueError string
  | TypeError
  | IndexError
  | KeyError
  | External string string
  | During py_exn py_exn

fun context_of :: "py_exn \<Rightarrow> py_exn option" where
  "context_of (During e handled) = Some handled"
| "context_of e = None"

text \<open>A Python float: a finite binary fraction (mantissa, exponent), an infinity or a NaN.\<close>

datatype py_float = Finite int int | Infinity bool | NaN

text \<open>
  The values \<open>json.loads\<close> can return.  A \<open>dict\<close> is the list of its items in insertion
  order, keyed by strings.
\<close>

datatype py_value =
    PyNone
  | PyBool bool
  | PyInt int
  | PyFloat py_float
  | PyStr string
  | PyList "py_value list"
  | PyDict "(string \<times> py_value) list"

text \<open>
  \<open>key in v\<close> for a string \<open>key\<close>: key membership in a dict, element membership in a
  list, substring test in a string, \<open>TypeError\<close> for a value that is not a container.
\<close>

fun py_contains :: "string \<Rightarrow> py_value \<Rightarrow> py_exn + bool" where
  "py_contains k (PyDict kvs) = Inr (k \<in> set (map fst kvs))"
| "py_contains k (PyList vs) = Inr (PyStr k \<in> set vs)"
| "py_contains k (PyStr t) = Inr (sublist k t)"
| "py_contains k PyNone = Inl TypeError"
| "py_contains k (PyBool _) = Inl TypeError"
| "py_contains k (PyInt _) = Inl TypeError"
| "py_contains k (PyFloat _) = Inl TypeError"

text \<open>
  \<open>v[key]\<close> for a string \<open>key\<close>: the stored value or \<open>KeyError\<close> in a dict, \<open>TypeError\<close>
  everywhere else (lists and strings take integer indices, the rest is not
  subscriptable).
\<close>

fun py_getitem :: "py_value \<Rightarrow> string \<Rightarrow> py_exn + py_value" where
  "py_getitem (PyDict kvs) k = (case map_of kvs k of None \<Rightarrow> Inl KeyError | Some v \<Rightarrow> Inr v)"
| "py_getitem (PyList _) k = Inl TypeError"
| "py_getitem (PyStr _) k = Inl TypeError"
| "py_getitem PyNone k = Inl TypeError"
| "py_getitem (PyBool _) k = Inl TypeError"
| "py_getitem (PyInt _) k = Inl TypeError"
| "py_getitem (PyFloat _) k = Inl TypeError"

subsection \<open>The client, the request and the reply\<close>

text \<open>
  An \<open>OpenAI\<close> object: its identity (objects constructed at different times are
  different objects) and the credential it was constructed with.
\<close>

record client =
  client_id :: nat
  api_key :: string

text \<open>
  The keyword arguments of \<open>client.chat.completions.create\<close>.  The dict literals of the
  source are lists of items.
\<close>

record request =
  model :: string
  response_format :: "(string \<times> string) list"
  seed :: int
  messages :: "(string \<times> string) list list"

text \<open>The part of the reply that is read: \<open>response.choices[0].message.content\<close>.\<close>

record message =
  content :: "string option"

record choice =
  message :: message

record response =
  choices :: "choice list"

subsection \<open>Collaborators and process state\<close>

text \<open>
  \<^item> \<open>PROMPT\<close>: the class attribute \<open>PROMPT = SecretsHandler.get_gpt_prompt()\<close>, evaluated
    once when the class body runs; the class exists only if that call returned.
  \<^item> \<open>get_openai_key\<close>: \<open>SecretsHandler.get_openai_key()\<close>, which returns or raises.
  \<^item> \<open>openai_init\<close>: the exception the constructor \<open>OpenAI(api_key=...)\<close> raises, if any.
  \<^item> \<open>completions_create\<close>: the outcome of the remote call; it may differ from one call
    to the next, so it depends on the number of requests issued before.
  \<^item> \<open>json_loads\<close>: \<open>json.loads\<close>.
  \<^item> \<open>py_str\<close>: the text an f-string substitutes for \<open>{value}\<close>.
\<close>

record environment =
  PROMPT :: string
  get_openai_key :: "py_exn + string"
  openai_init :: "string \<Rightarrow> py_exn option"
  completions_create :: "nat \<Rightarrow> client \<Rightarrow> request \<Rightarrow> py_exn + response"
  json_loads :: "string \<Rightarrow> py_exn + py_value"
  py_str :: "py_value \<Rightarrow> string"

text \<open>
  \<open>client_instance\<close> is \<open>OpenAIHandler._client_instance\<close>.  The other three fields
  record what the process did to its collaborators: how many \<open>OpenAI\<close> objects it
  constructed, the requests it issued, and the texts it handed to \<open>json.loads\<close>.
\<close>

record process =
  client_instance :: "client option"
  constructed :: nat
  sent :: "(client \<times> request) list"
  parsed :: "string list"

definition initial_process :: process where
  "initial_process = \<lparr>client_instance = None, constructed = 0, sent = [], parsed = []\<rparr>"

definition OpenAI :: "environment \<Rightarrow> string \<Rightarrow> process \<Rightarrow> (py_exn + client) \<times> process" where
  "OpenAI env key s =
     (case openai_init env key of
        Some e \<Rightarrow> (Inl e, s)
      | None \<Rightarrow> (Inr \<lparr>client_id = constructed s, api_key = key\<rparr>,
                 s\<lparr>constructed := Suc (constructed s)\<rparr>))"

definition chat_completions_create ::
  "environment \<Rightarrow> client \<Rightarrow> request \<Rightarrow> process \<Rightarrow> (py_exn + response) \<times> process" where
  "chat_completions_create env c req s =
     (completions_create env (length (sent s)) c req, s\<lparr>sent := sent s @ [(c, req)]\<rparr>)"

definition loads :: "environment \<Rightarrow> string \<Rightarrow> process \<Rightarrow> (py_exn + py_value) \<times> process" where
  "loads env txt s = (json_loads env txt, s\<lparr>parsed := parsed s @ [txt]\<rparr>)"

subsection \<open>The class \<open>OpenAIHandler\<close>\<close>

definition GPT_MODEL :: string where
  "GPT_MODEL = ''gpt-3.5-turbo''"

text \<open>\<open>_initialize_client\<close>: the key is read first, then the client is constructed and stored.\<close>

definition initialize_client :: "environment \<Rightarrow> process \<Rightarrow> (py_exn + client) \<times> process" where
  "initialize_client env s =
     (case get_openai_key env of
        Inl e \<Rightarrow> (Inl e, s)
      | Inr key \<Rightarrow>
          (case OpenAI env key s of
             (Inl e, s1) \<Rightarrow> (Inl e, s1)
           | (Inr c, s1) \<Rightarrow> (Inr c, s1\<lparr>client_instance := Some c\<rparr>)))"

text \<open>
  \<open>get_client\<close>: \<open>if OpenAIHandler._client_instance: return it\<close>.  An \<open>OpenAI\<close> object is
  truthy, so the test fails exactly on \<open>None\<close>.
\<close>

definition get_client :: "environment \<Rightarrow> process \<Rightarrow> (py_exn + client) \<times> process" where
  "get_client env s =
     (case client_instance s of
        Some c \<Rightarrow> (Inr c, s)
      | None \<Rightarrow> initialize_client env s)"

text \<open>
  \<open>get_response\<close>, statement by statement.  \<open>not found_content\<close> is true of \<open>None\<close> and of
  the empty string; the bare \<open>except:\<close> catches whatever \<open>json.loads\<close> raised, and the
  \<open>raise\<close> inside it happens while that exception is handled.
\<close>

definition get_response ::
  "environment \<Rightarrow> string \<Rightarrow> process \<Rightarrow> (py_exn + py_value) \<times> process" where
  \<open>get_response env sanitized_input s =
     (case get_client env s of
        (Inl e, s1) \<Rightarrow> (Inl e, s1)
      | (Inr client, s1) \<Rightarrow>
          (case chat_completions_create env client
                  \<lparr>model = GPT_MODEL,
                   response_format = [(''type'', ''json_object'')],
                   seed = 69,
                   messages = [[(''role'', ''system''), (''content'', PROMPT env)],
                               [(''role'', ''user''), (''content'', sanitized_input)]]\<rparr> s1 of
             (Inl e, s2) \<Rightarrow> (Inl e, s2)
           | (Inr response, s2) \<Rightarrow>
               (case choices response of
                  [] \<Rightarrow> (Inl IndexError, s2)
                | choice0 # _ \<Rightarrow>
                    (case content (message choice0) of
                       None \<Rightarrow>
                         (Inl (ValueError
                            (''Something went wrong retrieving a response from GPT. '' @
                             ''No response was provided.'')), s2)
                     | Some found_content \<Rightarrow>
                         if found_content = [] then
                           (Inl (ValueError
                              (''Something went wrong retrieving a response from GPT. '' @
                               ''No response was provided.'')), s2)
                         else
                           (case loads env found_content s2 of
                              (Inl handled, s3) \<Rightarrow>
                                (Inl (During
                                   (ValueError
                                      (''Something went wrong retrieving a response from GPT. '' @
                                       ''The provided response could not be parsed into JSON.''))
                                   handled), s3)
                            | (Inr content_json, s3) \<Rightarrow>
                                (case py_contains ''genres'' content_json of
                                   Inl e \<Rightarrow> (Inl e, s3)
                                 | Inr found \<Rightarrow>
                                     if \<not> found then
                                       (Inl (ValueError
                                          (''Something went wrong retrieving a response from GPT. '' @
                                           ''The parsed JSON '' @ py_str env content_json @ '' '' @
                                           ''does not contain the `genres` key.'')), s3)
                                     else
                                       (case py_getitem content_json ''genres'' of
                                          Inl e \<Rightarrow> (Inl e, s3)
                                        | Inr genres \<Rightarrow> (Inr genres, s3))))))))\<close>

subsection \<open>Sequences of calls\<close>

text \<open>
  What the rest of the program can do with the class: call \<open>get_client\<close> or call
  \<open>get_response\<close> with some input.  \<open>run\<close> performs a list of such calls in order,
  whether each returns or raises.
\<close>

datatype call = GetClient | GetResponse string

fun step :: "environment \<Rightarrow> call \<Rightarrow> process \<Rightarrow> process" where
  "step env GetClient s = snd (get_client env s)"
| "step env (GetResponse sanitized_input) s = snd (get_response env sanitized_input s)"

definition run :: "environment \<Rightarrow> call list \<Rightarrow> process \<Rightarrow> process" where
  "run env calls s = fold (step env) calls s"

subsection \<open>Notation for the statements\<close>

text \<open>The request and the three messages of \<open>get_response\<close>, under names.\<close>

abbreviation completion_request :: "environment \<Rightarrow> string \<Rightarrow> request" where
  "completion_request env sanitized_input \<equiv>
     \<lparr>model = GPT_MODEL,
      response_format = [(''type'', ''json_object'')],
      seed = 69,
      messages = [[(''role'', ''system''), (''content'', PROMPT env)],
                  [(''role'', ''user''), (''content'', sanitized_input)]]\<rparr>"

abbreviation empty_reply_message :: string where
  "empty_reply_message \<equiv>
     ''Something went wrong retrieving a response from GPT. '' @ ''No response was provided.''"

abbreviation malformed_reply_message :: string where
  "malformed_reply_message \<equiv>
     ''Something went wrong retrieving a response from GPT. '' @
     ''The provided response could not be parsed into JSON.''"

abbreviation missing_field_message :: "string \<Rightarrow> string" where
  \<open>missing_field_message shown \<equiv>
     ''Something went wrong retrieving a response from GPT. '' @
     ''The parsed JSON '' @ shown @ '' '' @ ''does not contain the `genres` key.''\<close>

text \<open>A sequence of strings: a list whose elements are all strings.\<close>

fun is_string :: "py_value \<Rightarrow> bool" where
  "is_string (PyStr _) = True"
| "is_string _ = False"

fun is_string_sequence :: "py_value \<Rightarrow> bool" where
  "is_string_sequence (PyList vs) = list_all is_string vs"
| "is_string_sequence _ = False"

text \<open>
  The outcomes the specification's error table allows \<open>get_response\<close>: a sequence of
  strings, or one of four failures.  A configuration error is the failure of the
  secrets provider; the other three are the three \<open>ValueError\<close>s of the source.
\<close>

definition documented_failure :: "environment \<Rightarrow> py_exn \<Rightarrow> bool" where
  "documented_failure env e \<longleftrightarrow>
     get_openai_key env = Inl e \<or>
     e = ValueError empty_reply_message \<or>
     e = ValueError malformed_reply_message \<or>
     (\<exists>handled. e = During (ValueError malformed_reply_message) handled) \<or>
     (\<exists>shown. e = ValueError (missing_field_message shown))"

definition documented_outcome :: "environment \<Rightarrow> py_exn + py_value \<Rightarrow> bool" where
  "documented_outcome env r =
     (case r of Inr v \<Rightarrow> is_string_sequence v | Inl e \<Rightarrow> documented_failure env e)"

text \<open>
  The reply to one call is as the request asks when, if the call obtains the client and
  its remote call returns, the reply has a first choice, and the content of that
  choice, if it is not empty and parses, parses to an object whose \<open>genres\<close> entry, if
  there is one, is a sequence of strings.
\<close>

fun genres_object :: "py_value \<Rightarrow> bool" where
  "genres_object (PyDict kvs) =
     (case map_of kvs ''genres'' of None \<Rightarrow> True | Some v \<Rightarrow> is_string_sequence v)"
| "genres_object _ = False"

definition reply_as_requested :: "environment \<Rightarrow> string \<Rightarrow> process \<Rightarrow> bool" where
  "reply_as_requested env sanitized_input s =
     (case get_client env s of
        (Inl e, s1) \<Rightarrow> True
      | (Inr client, s1) \<Rightarrow>
          (case fst (chat_completions_create env client
                  (completion_request env sanitized_input) s1) of
             Inl e \<Rightarrow> True
           | Inr response \<Rightarrow>
               (case choices response of
                  [] \<Rightarrow> False
                | choice0 # rest \<Rightarrow>
                    (case content (message choice0) of
                       None \<Rightarrow> True
                     | Some found_content \<Rightarrow>
                         found_content = [] \<or>
                         (case json_loads env found_content of
                            Inl e \<Rightarrow> True
                          | Inr content_json \<Rightarrow> genres_object content_json)))))"

subsection \<open>A sample environment\<close>

text \<open>
  A stand-in for the collaborators, as a test with a mocked client would set it up: the
  remote call always gives the same outcome \<open>outcome\<close> (an exception, or a reply with
  one choice of the given content), and \<open>parser\<close> stands for \<open>json.loads\<close>.
  \<open>sample_loads\<close> gives the value of \<open>json.loads\<close> on four texts and rejects every other
  text; \<open>sample_str\<close> gives the text of \<open>str\<close> on one dict.  \<open>nested_text\<close> is a hundred
  thousand opening brackets, on which \<open>json.loads\<close> exhausts the recursion limit;
  \<open>deep_loads\<close> is \<open>sample_loads\<close> with that text added.
\<close>

definition sample_loads :: "string \<Rightarrow> py_exn + py_value" where
  \<open>sample_loads txt =
     (if txt = ''{"genres": ["pop","rock","jazz","blues","folk"]}'' then
        Inr (PyDict [(''genres'',
               PyList [PyStr ''pop'', PyStr ''rock'', PyStr ''jazz'', PyStr ''blues'', PyStr ''folk''])])
      else if txt = ''{"genres": ["pop","pop"," Rock "]}'' then
        Inr (PyDict [(''genres'', PyList [PyStr ''pop'', PyStr ''pop'', PyStr '' Rock ''])])
      else if txt = ''{"genres": 5}'' then
        Inr (PyDict [(''genres'', PyInt 5)])
      else if txt = ''{"mood":"happy"}'' then
        Inr (PyDict [(''mood'', PyStr ''happy'')])
      else Inl (External ''JSONDecodeError'' ''Expecting value: line 1 column 1 (char 0)''))\<close>

definition nested_text :: string where
  "nested_text = replicate 100000 (CHR ''['')"

definition deep_loads :: "string \<Rightarrow> py_exn + py_value" where
  "deep_loads txt =
     (if txt = nested_text then
        Inl (External ''RecursionError''
          (''maximum recursion depth exceeded '' @
           ''while decoding a JSON array from a unicode string''))
      else sample_loads txt)"

definition sample_str :: "py_value \<Rightarrow> string" where
  \<open>sample_str v =
     (if v = PyDict [(''mood'', PyStr ''happy'')] then ''{'mood': 'happy'}'' else ''...'')\<close>

definition sample_environment ::
  "py_exn + string option \<Rightarrow> (string \<Rightarrow> py_exn + py_value) \<Rightarrow> environment" where
  "sample_environment outcome parser =
     \<lparr>PROMPT = ''Reply with a JSON object listing five music genres for the mood.'',
      get_openai_key = Inr ''sk-sample'',
      openai_init = (\<lambda>key. None),
      completions_create = (\<lambda>n c req.
         case outcome of
           Inl e \<Rightarrow> Inl e
         | Inr found \<Rightarrow> Inr \<lparr>choices = [\<lparr>message = \<lparr>content = found\<rparr>\<rparr>]\<rparr>),
      json_loads = parser,
      py_str = sample_str\<rparr>"

subsection \<open>The invariant of the client handle\<close>

text \<open>
  Either no client is stored and none was constructed, or one is stored and exactly one
  was constructed.
\<close>

definition handle_invariant :: "process \<Rightarrow> bool" where
  "handle_invariant s =
     (case client_instance s of
        None \<Rightarrow> constructed s = 0
      | Some c \<Rightarrow> constructed s = 1)"

section \<open>Properties\<close>

subsection \<open>Symbolic execution of the two accessors\<close>

lemma get_client_logs:
  "sent (snd (get_client env s)) = sent s" "parsed (snd (get_client env s)) = parsed s"
  by (simp_all add: get_client_def initialize_client_def OpenAI_def
      split: option.splits sum.splits prod.splits)

lemma get_response_without_content:
  assumes "get_client env s = (Inr client, s1)"
    and "chat_completions_create env client (completion_request env inp) s1 = (Inr response, s2)"
    and "choices response = choice0 # rest"
    and "content (message choice0) = None \<or> content (message choice0) = Some []"
  shows "get_response env inp s = (Inl (ValueError empty_reply_message), s2)"
  using assms unfolding get_response_def by auto

lemma get_response_with_content:
  assumes "get_client env s = (Inr client, s1)"
    and "chat_completions_create env client (completion_request env inp) s1 = (Inr response, s2)"
    and "choices response = choice0 # rest"
    and "content (message choice0) = Some found_content" and "found_content \<noteq> []"
  shows "get_response env inp s =
     (case json_loads env found_content of
        Inl handled \<Rightarrow>
          (Inl (During (ValueError malformed_reply_message) handled),
           s2\<lparr>parsed := parsed s2 @ [found_content]\<rparr>)
      | Inr content_json \<Rightarrow>
          (case py_contains ''genres'' content_json of
             Inl e \<Rightarrow> (Inl e, s2\<lparr>parsed := parsed s2 @ [found_content]\<rparr>)
           | Inr found \<Rightarrow>
               if found then
                 (case py_getitem content_json ''genres'' of
                    Inl e \<Rightarrow> (Inl e, s2\<lparr>parsed := parsed s2 @ [found_content]\<rparr>)
                  | Inr genres \<Rightarrow> (Inr genres, s2\<lparr>parsed := parsed s2 @ [found_content]\<rparr>))
               else
                 (Inl (ValueError (missing_field_message (py_str env content_json))),
                  s2\<lparr>parsed := parsed s2 @ [found_content]\<rparr>)))"
  using assms unfolding get_response_def loads_def
  by (simp split: sum.splits)

subsection \<open>The sample environment, executed\<close>

lemma sample_get_client:
  "get_client (sample_environment outcome parser) initial_process =
     (Inr \<lparr>client_id = 0, api_key = ''sk-sample''\<rparr>,
      \<lparr>client_instance = Some \<lparr>client_id = 0, api_key = ''sk-sample''\<rparr>,
       constructed = 1, sent = [], parsed = []\<rparr>)"
  by (simp add: get_client_def initialize_client_def OpenAI_def sample_environment_def
      initial_process_def)

lemma sample_create:
  "chat_completions_create (sample_environment (Inr found) parser) c req s =
     (Inr \<lparr>choices = [\<lparr>message = \<lparr>content = found\<rparr>\<rparr>]\<rparr>, s\<lparr>sent := sent s @ [(c, req)]\<rparr>)"
  by (simp add: chat_completions_create_def sample_environment_def)

lemma sample_fields:
  "json_loads (sample_environment outcome parser) = parser"
  "py_str (sample_environment outcome parser) = sample_str"
  "get_openai_key (sample_environment outcome parser) = Inr ''sk-sample''"
  by (simp_all add: sample_environment_def)

lemma sample_choice:
  "choices \<lparr>choices = [\<lparr>message = \<lparr>content = found\<rparr>\<rparr>]\<rparr> =
     \<lparr>message = \<lparr>content = found\<rparr>\<rparr> # []"
  by simp

lemma sample_content: "content (message \<lparr>message = \<lparr>content = found\<rparr>\<rparr>) = found"
  by simp

subsection \<open>The empty reply\<close>

text \<open>
  Claim C4.  When the content of the first choice's message is absent (\<open>None\<close>) or the
  empty string, \<open>get_response\<close> raises the \<open>ValueError\<close> of the empty reply, and it has
  handed nothing to \<open>json.loads\<close>: the list of parsed texts is the one before the call.
\<close>

theorem empty_reply_raises_before_parsing:
  assumes "get_client env s = (Inr client, s1)"
    and "chat_completions_create env client (completion_request env inp) s1 = (Inr response, s2)"
    and "choices response = choice0 # rest"
    and "content (message choice0) = None \<or> content (message choice0) = Some []"
  shows "fst (get_response env inp s) = Inl (ValueError empty_reply_message) \<and>
         parsed (snd (get_response env inp s)) = parsed s"
proof -
  have "get_response env inp s = (Inl (ValueError empty_reply_message), s2)"
    using assms by (rule get_response_without_content)
  moreover have "parsed s2 = parsed s1"
    using assms(2) by (auto simp: chat_completions_create_def)
  moreover have "parsed s1 = parsed s"
    using get_client_logs(2)[of env s] assms(1) by simp
  ultimately show ?thesis by simp
qed

theorem empty_reply_raises_before_parsing_witness:
  "fst (get_response (sample_environment (Inr None) sample_loads) ''sad'' initial_process) =
     Inl (ValueError empty_reply_message) \<and>
   parsed (snd (get_response (sample_environment (Inr None) sample_loads) ''sad''
     initial_process)) = []"
proof -
  have absent: "content (message \<lparr>message = \<lparr>content = None\<rparr>\<rparr>) = None \<or>
      content (message \<lparr>message = \<lparr>content = None\<rparr>\<rparr>) = Some []"
    by simp
  from empty_reply_raises_before_parsing [OF sample_get_client sample_create sample_choice absent]
  show ?thesis by (simp add: initial_process_def)
qed

text \<open>
  Claim C10.  The test on the content is a test of falsiness: the \<open>ValueError\<close> of the
  empty reply is raised when the content is \<open>None\<close>, when it is the empty string, and
  in no other case.
\<close>

theorem empty_string_is_treated_as_absent:
  assumes "get_client env s = (Inr client, s1)"
    and "chat_completions_create env client (completion_request env inp) s1 = (Inr response, s2)"
    and "choices response = choice0 # rest"
  shows "fst (get_response env inp s) = Inl (ValueError empty_reply_message) \<longleftrightarrow>
         content (message choice0) = None \<or> content (message choice0) = Some []"
proof
  assume "content (message choice0) = None \<or> content (message choice0) = Some []"
  then show "fst (get_response env inp s) = Inl (ValueError empty_reply_message)"
    using get_response_without_content [OF assms] by simp
next
  assume raised: "fst (get_response env inp s) = Inl (ValueError empty_reply_message)"
  show "content (message choice0) = None \<or> content (message choice0) = Some []"
  proof (rule ccontr)
    assume "\<not> ?thesis"
    then obtain found_content
      where found: "content (message choice0) = Some found_content" "found_content \<noteq> []"
      by auto
    show False
    proof (cases "json_loads env found_content")
      case (Inl e)
      then show ?thesis
        using get_response_with_content [OF assms found] raised by simp
    next
      case (Inr content_json)
      then show ?thesis
        using get_response_with_content [OF assms found] raised
        by (cases content_json) (auto split: if_splits option.splits)
    qed
  qed
qed

theorem empty_string_is_treated_as_absent_witness:
  "fst (get_response (sample_environment (Inr (Some [])) sample_loads) ''sad'' initial_process) =
     Inl (ValueError empty_reply_message)"
  using empty_string_is_treated_as_absent
    [OF sample_get_client sample_create sample_choice, of "Some []" sample_loads "''sad''"]
  by (simp del: append.simps)

subsection \<open>The reply that is not JSON\<close>

text \<open>
  Claim C5.  When the content is a non-empty text on which \<open>json.loads\<close> raises
  \<open>JSONDecodeError\<close> (the text \<open>not json\<close>, for one), \<open>get_response\<close> raises the
  \<open>ValueError\<close> of the malformed reply; it is raised while the decoding error is
  handled.
\<close>

theorem undecodable_reply_raises_malformed:
  assumes "get_client env s = (Inr client, s1)"
    and "chat_completions_create env client (completion_request env inp) s1 = (Inr response, s2)"
    and "choices response = choice0 # rest"
    and "content (message choice0) = Some found_content" and "found_content \<noteq> []"
    and "json_loads env found_content = Inl (External ''JSONDecodeError'' detail)"
  shows "fst (get_response env inp s) =
     Inl (During (ValueError malformed_reply_message) (External ''JSONDecodeError'' detail))"
  using get_response_with_content [OF assms(1-5)] assms(6) by simp

theorem undecodable_reply_raises_malformed_witness:
  "json_loads (sample_environment (Inr (Some ''not json'')) sample_loads) ''not json'' =
     Inl (External ''JSONDecodeError'' ''Expecting value: line 1 column 1 (char 0)'') \<and>
   fst (get_response (sample_environment (Inr (Some ''not json'')) sample_loads) ''sad''
     initial_process) =
     Inl (During (ValueError malformed_reply_message)
       (External ''JSONDecodeError'' ''Expecting value: line 1 column 1 (char 0)''))"
proof -
  have undecodable:
    "json_loads (sample_environment (Inr (Some ''not json'')) sample_loads) ''not json'' =
       Inl (External ''JSONDecodeError'' ''Expecting value: line 1 column 1 (char 0)'')"
    by (simp add: sample_fields sample_loads_def)
  have given: "''not json'' \<noteq> []"
    by simp
  from undecodable_reply_raises_malformed
    [OF sample_get_client sample_create sample_choice sample_content given undecodable]
  show ?thesis using undecodable by simp
qed

text \<open>
  Claim C9, as the code has it.  The handler around \<open>json.loads\<close> names no exception
  class: whatever exception \<open>e\<close> the parser raises on the content, of any class and with
  any detail, \<open>get_response\<close> raises the \<open>ValueError\<close> of the malformed reply, whose
  class and message do not depend on \<open>e\<close>.  The exception \<open>e\<close> is not lost: the
  \<open>ValueError\<close> is raised while \<open>e\<close> is handled, and carries \<open>e\<close> as its context.
\<close>

theorem any_parsing_exception_becomes_malformed:
  assumes "get_client env s = (Inr client, s1)"
    and "chat_completions_create env client (completion_request env inp) s1 = (Inr response, s2)"
    and "choices response = choice0 # rest"
    and "content (message choice0) = Some found_content" and "found_content \<noteq> []"
    and "json_loads env found_content = Inl e"
  shows "get_response env inp s =
           (Inl (During (ValueError malformed_reply_message) e),
            s2\<lparr>parsed := parsed s2 @ [found_content]\<rparr>) \<and>
         context_of (During (ValueError malformed_reply_message) e) = Some e"
  using get_response_with_content [OF assms(1-5)] assms(6) by simp

theorem any_parsing_exception_becomes_malformed_witness:
  "json_loads (sample_environment (Inr (Some nested_text)) deep_loads) nested_text =
     Inl (External ''RecursionError''
       (''maximum recursion depth exceeded '' @
        ''while decoding a JSON array from a unicode string'')) \<and>
   fst (get_response (sample_environment (Inr (Some nested_text)) deep_loads) ''sad''
     initial_process) =
     Inl (During (ValueError malformed_reply_message)
       (External ''RecursionError''
         (''maximum recursion depth exceeded '' @
          ''while decoding a JSON array from a unicode string'')))"
proof -
  have overflow:
    "json_loads (sample_environment (Inr (Some nested_text)) deep_loads) nested_text =
       Inl (External ''RecursionError''
         (''maximum recursion depth exceeded '' @
          ''while decoding a JSON array from a unicode string''))"
    by (simp add: sample_fields deep_loads_def)
  have given: "nested_text \<noteq> []"
    by (simp add: nested_text_def)
  from any_parsing_exception_becomes_malformed
    [OF sample_get_client sample_create sample_choice sample_content given overflow]
  show ?thesis using overflow by simp
qed

text \<open>
  The claim as worded fails where it says the original exception is discarded.  On the
  reply \<open>not json\<close> the decoding error, with its class and its detail, is the context of
  the \<open>ValueError\<close> that \<open>get_response\<close> raises.
\<close>

theorem parsing_exception_discarded_counterexample:
  "fst (get_response (sample_environment (Inr (Some ''not json'')) sample_loads) ''sad''
     initial_process) =
     Inl (During (ValueError malformed_reply_message)
       (External ''JSONDecodeError'' ''Expecting value: line 1 column 1 (char 0)'')) \<and>
   context_of (During (ValueError malformed_reply_message)
       (External ''JSONDecodeError'' ''Expecting value: line 1 column 1 (char 0)'')) =
     Some (External ''JSONDecodeError'' ''Expecting value: line 1 column 1 (char 0)'')"
proof -
  have given: "''not json'' \<noteq> []"
    by simp
  show ?thesis
    using get_response_with_content
      [OF sample_get_client sample_create sample_choice sample_content given]
    by (simp add: sample_fields sample_loads_def)
qed

subsection \<open>The reply without the \<open>genres\<close> key\<close>

lemma missing_field_message_shows: "sublist shown (missing_field_message shown)"
proof -
  have \<open>missing_field_message shown =
      (''Something went wrong retrieving a response from GPT. '' @ ''The parsed JSON '') @
      shown @ ('' '' @ ''does not contain the `genres` key.'')\<close>
    by (simp only: append_assoc)
  then show ?thesis
    by (simp only: sublist_appendI)
qed

text \<open>
  Claim C6.  When the content parses to an object that has no \<open>genres\<close> key,
  \<open>get_response\<close> raises the \<open>ValueError\<close> of the missing key, and the text of the
  parsed object occurs in its message.
\<close>

theorem missing_genres_raises_with_parsed_object:
  assumes "get_client env s = (Inr client, s1)"
    and "chat_completions_create env client (completion_request env inp) s1 = (Inr response, s2)"
    and "choices response = choice0 # rest"
    and "content (message choice0) = Some found_content" and "found_content \<noteq> []"
    and "json_loads env found_content = Inr (PyDict kvs)"
    and "''genres'' \<notin> set (map fst kvs)"
  shows "fst (get_response env inp s) =
           Inl (ValueError (missing_field_message (py_str env (PyDict kvs)))) \<and>
         sublist (py_str env (PyDict kvs)) (missing_field_message (py_str env (PyDict kvs)))"
proof
  show "fst (get_response env inp s) =
      Inl (ValueError (missing_field_message (py_str env (PyDict kvs))))"
    using get_response_with_content [OF assms(1-5)] assms(6,7) by simp
  show "sublist (py_str env (PyDict kvs)) (missing_field_message (py_str env (PyDict kvs)))"
    by (rule missing_field_message_shows)
qed

theorem missing_genres_raises_with_parsed_object_witness:
  \<open>fst (get_response (sample_environment (Inr (Some ''{"mood":"happy"}'')) sample_loads) ''sad''
     initial_process) =
     Inl (ValueError (''Something went wrong retrieving a response from GPT. '' @
       ''The parsed JSON {'mood': 'happy'} does not contain the `genres` key.''))\<close>
proof -
  have given: \<open>''{"mood":"happy"}'' \<noteq> []\<close>
    by simp
  have object:
    \<open>json_loads (sample_environment (Inr (Some ''{"mood":"happy"}'')) sample_loads)
       ''{"mood":"happy"}'' = Inr (PyDict [(''mood'', PyStr ''happy'')])\<close>
    by (simp add: sample_fields sample_loads_def)
  have lacking: "''genres'' \<notin> set (map fst [(''mood'', PyStr ''happy'')])"
    by simp
  from missing_genres_raises_with_parsed_object
    [OF sample_get_client sample_create sample_choice sample_content given object lacking]
  show ?thesis by (simp add: sample_fields sample_str_def)
qed

subsection \<open>The successful reply\<close>

text \<open>
  Claim C2.  When the content parses to the object that maps \<open>genres\<close> to the list
  \<open>pop, rock, jazz, blues, folk\<close>, \<open>get_response\<close> returns exactly that list; and
  whenever \<open>get_response\<close> returns a value, the content has parsed to an object and the
  value is the one stored under its \<open>genres\<close> key.
\<close>

theorem genres_value_is_returned:
  assumes "get_client env s = (Inr client, s1)"
    and "chat_completions_create env client (completion_request env inp) s1 = (Inr response, s2)"
    and "choices response = choice0 # rest"
    and "content (message choice0) = Some found_content" and "found_content \<noteq> []"
  shows "(json_loads env found_content =
            Inr (PyDict [(''genres'', PyList [PyStr ''pop'', PyStr ''rock'', PyStr ''jazz'',
              PyStr ''blues'', PyStr ''folk''])]) \<longrightarrow>
          fst (get_response env inp s) =
            Inr (PyList [PyStr ''pop'', PyStr ''rock'', PyStr ''jazz'', PyStr ''blues'',
              PyStr ''folk''])) \<and>
         (\<forall>v. fst (get_response env inp s) = Inr v \<longrightarrow>
            (\<exists>kvs. json_loads env found_content = Inr (PyDict kvs) \<and>
               map_of kvs ''genres'' = Some v))"
proof (intro conjI impI allI)
  assume "json_loads env found_content =
    Inr (PyDict [(''genres'', PyList [PyStr ''pop'', PyStr ''rock'', PyStr ''jazz'',
      PyStr ''blues'', PyStr ''folk''])])"
  then show "fst (get_response env inp s) =
    Inr (PyList [PyStr ''pop'', PyStr ''rock'', PyStr ''jazz'', PyStr ''blues'', PyStr ''folk''])"
    using get_response_with_content [OF assms] by simp
next
  fix v
  assume returned: "fst (get_response env inp s) = Inr v"
  show "\<exists>kvs. json_loads env found_content = Inr (PyDict kvs) \<and> map_of kvs ''genres'' = Some v"
  proof (cases "json_loads env found_content")
    case (Inl e)
    then show ?thesis
      using get_response_with_content [OF assms] returned by simp
  next
    case (Inr content_json)
    then show ?thesis
      using get_response_with_content [OF assms] returned
      by (cases content_json) (auto split: if_splits option.splits)
  qed
qed

theorem genres_value_is_returned_witness:
  \<open>fst (get_response
      (sample_environment (Inr (Some ''{"genres": ["pop","rock","jazz","blues","folk"]}''))
        sample_loads) ''sad'' initial_process) =
     Inr (PyList [PyStr ''pop'', PyStr ''rock'', PyStr ''jazz'', PyStr ''blues'', PyStr ''folk''])\<close>
proof -
  have given: \<open>''{"genres": ["pop","rock","jazz","blues","folk"]}'' \<noteq> []\<close>
    by simp
  from genres_value_is_returned [OF sample_get_client sample_create sample_choice sample_content given]
  show ?thesis by (simp add: sample_fields sample_loads_def)
qed

text \<open>
  Claim C8.  When the parsed object has a \<open>genres\<close> key, \<open>get_response\<close> returns the
  value stored under it as it is, whatever that value is: nothing depends on its
  length, on its elements being different, or on their form.
\<close>

theorem stored_genres_returned_unvalidated:
  assumes "get_client env s = (Inr client, s1)"
    and "chat_completions_create env client (completion_request env inp) s1 = (Inr response, s2)"
    and "choices response = choice0 # rest"
    and "content (message choice0) = Some found_content" and "found_content \<noteq> []"
    and "json_loads env found_content = Inr (PyDict kvs)"
    and "''genres'' \<in> set (map fst kvs)"
  shows "\<exists>v. map_of kvs ''genres'' = Some v \<and> fst (get_response env inp s) = Inr v"
proof -
  from assms(7) obtain v where "map_of kvs ''genres'' = Some v"
    by (metis map_of_eq_None_iff not_Some_eq set_map)
  then show ?thesis
    using get_response_with_content [OF assms(1-5)] assms(6,7) by simp
qed

theorem stored_genres_returned_unvalidated_witness:
  \<open>fst (get_response
      (sample_environment (Inr (Some ''{"genres": ["pop","pop"," Rock "]}'')) sample_loads)
      ''sad'' initial_process) =
     Inr (PyList [PyStr ''pop'', PyStr ''pop'', PyStr '' Rock ''])\<close>
proof -
  have given: \<open>''{"genres": ["pop","pop"," Rock "]}'' \<noteq> []\<close>
    by simp
  have object:
    \<open>json_loads (sample_environment (Inr (Some ''{"genres": ["pop","pop"," Rock "]}''))
        sample_loads) ''{"genres": ["pop","pop"," Rock "]}'' =
      Inr (PyDict [(''genres'', PyList [PyStr ''pop'', PyStr ''pop'', PyStr '' Rock ''])])\<close>
    by (simp add: sample_fields sample_loads_def)
  have stored: "''genres'' \<in>
      set (map fst [(''genres'', PyList [PyStr ''pop'', PyStr ''pop'', PyStr '' Rock ''])])"
    by simp
  from stored_genres_returned_unvalidated
    [OF sample_get_client sample_create sample_choice sample_content given object stored]
  show ?thesis by simp
qed

subsection \<open>The outbound request\<close>

text \<open>
  Claim C3.  Whatever the input, a call of \<open>get_response\<close> that obtains the client
  issues exactly one request, to that client: the model \<open>gpt-3.5-turbo\<close>, the response
  format \<open>json_object\<close>, the seed 69 and two messages, the system message with the
  prompt and the user message with the input.  A call that does not obtain the client
  issues none.
\<close>

theorem outbound_request_is_fixed:
  "sent (snd (get_response env inp s)) =
     sent s @
     (case fst (get_client env s) of
        Inl e \<Rightarrow> []
      | Inr client \<Rightarrow>
          [(client,
            \<lparr>model = ''gpt-3.5-turbo'',
             response_format = [(''type'', ''json_object'')],
             seed = 69,
             messages = [[(''role'', ''system''), (''content'', PROMPT env)],
                         [(''role'', ''user''), (''content'', inp)]]\<rparr>)])"
proof (cases "get_client env s")
  case (Pair r s1)
  have s1: "sent s1 = sent s"
    using get_client_logs(1) [of env s] Pair by simp
  show ?thesis
  proof (cases r)
    case (Inl e)
    then show ?thesis
      using Pair s1 by (simp add: get_response_def)
  next
    case (Inr client)
    then show ?thesis
      using Pair s1
      by (simp add: get_response_def chat_completions_create_def loads_def GPT_MODEL_def
          split: sum.splits list.splits option.splits)
  qed
qed

theorem outbound_request_is_fixed_witness:
  \<open>sent (snd (get_response (sample_environment (Inr (Some ''{"mood":"happy"}'')) sample_loads)
      ''sad'' initial_process)) =
     [(\<lparr>client_id = 0, api_key = ''sk-sample''\<rparr>,
       \<lparr>model = ''gpt-3.5-turbo'',
        response_format = [(''type'', ''json_object'')],
        seed = 69,
        messages =
          [[(''role'', ''system''),
            (''content'', ''Reply with a JSON object listing five music genres for the mood.'')],
           [(''role'', ''user''), (''content'', ''sad'')]]\<rparr>)]\<close>
  using outbound_request_is_fixed
    [of \<open>sample_environment (Inr (Some ''{"mood":"happy"}'')) sample_loads\<close> "''sad''"
      initial_process]
  by (simp add: sample_get_client) (simp add: sample_environment_def initial_process_def)

subsection \<open>The client handle\<close>

lemma get_client_stored:
  "client_instance s = Some c \<Longrightarrow> get_client env s = (Inr c, s)"
  by (simp add: get_client_def)

lemma get_client_returns:
  assumes "get_client env s = (Inr c, s')"
  shows "client_instance s' = Some c"
  using assms
  by (auto simp: get_client_def initialize_client_def OpenAI_def
      split: option.splits sum.splits)

lemma get_client_raises:
  assumes "get_client env s = (Inl e, s')"
  shows "s' = s \<and> client_instance s = None \<and>
         (get_openai_key env = Inl e \<or>
          (\<exists>key. get_openai_key env = Inr key \<and> openai_init env key = Some e))"
  using assms
  by (auto simp: get_client_def initialize_client_def OpenAI_def
      split: option.splits sum.splits)

lemma get_client_invariant:
  "handle_invariant s \<Longrightarrow> handle_invariant (snd (get_client env s))"
  by (auto simp: handle_invariant_def get_client_def initialize_client_def OpenAI_def
      split: option.splits sum.splits)

lemma get_response_handle:
  "client_instance (snd (get_response env inp s)) = client_instance (snd (get_client env s))"
  "constructed (snd (get_response env inp s)) = constructed (snd (get_client env s))"
proof -
  obtain r s1 where client: "get_client env s = (r, s1)"
    by (cases "get_client env s")
  have "client_instance (snd (get_response env inp s)) = client_instance s1 \<and>
        constructed (snd (get_response env inp s)) = constructed s1"
  proof (cases r)
    case (Inl e)
    then show ?thesis
      using client by (simp add: get_response_def)
  next
    case (Inr c)
    then show ?thesis
      using client
      by (simp add: get_response_def chat_completions_create_def loads_def
          split: sum.splits list.splits option.splits)
  qed
  then show
    "client_instance (snd (get_response env inp s)) = client_instance (snd (get_client env s))"
    "constructed (snd (get_response env inp s)) = constructed (snd (get_client env s))"
    using client by simp_all
qed

lemma step_handle:
  "client_instance (step env a s) = client_instance (snd (get_client env s))"
  "constructed (step env a s) = constructed (snd (get_client env s))"
  by (cases a; simp add: get_response_handle)+

lemma step_invariant: "handle_invariant s \<Longrightarrow> handle_invariant (step env a s)"
  using get_client_invariant [of s env]
  by (simp add: handle_invariant_def step_handle split: option.splits)

lemma run_invariant: "handle_invariant s \<Longrightarrow> handle_invariant (run env calls s)"
  unfolding run_def
  by (induction calls arbitrary: s) (simp_all add: step_invariant)

lemma run_keeps_handle:
  "client_instance s = Some c \<Longrightarrow>
     client_instance (run env calls s) = Some c \<and> constructed (run env calls s) = constructed s"
  unfolding run_def
proof (induction calls arbitrary: s)
  case Nil
  then show ?case by simp
next
  case (Cons a calls)
  have "client_instance (step env a s) = Some c" "constructed (step env a s) = constructed s"
    using Cons.prems by (simp_all add: step_handle get_client_stored)
  then show ?case
    using Cons.IH [of "step env a s"] by simp
qed

text \<open>
  Claim C7.  If a call of \<open>get_client\<close> returns a client, the next call returns the same
  client and changes nothing.  From the start of the process, no sequence of calls of
  \<open>get_client\<close> and \<open>get_response\<close> constructs more than one client.  Once a client is
  stored, any sequence of calls leaves it stored, constructs no other, and \<open>get_client\<close>
  still returns it.
\<close>

theorem client_handle_is_constructed_once:
  "(get_client env s = (Inr c, s') \<longrightarrow> get_client env s' = (Inr c, s')) \<and>
   constructed (run env calls initial_process) \<le> 1 \<and>
   (client_instance s = Some c \<longrightarrow>
      client_instance (run env calls s) = Some c \<and>
      constructed (run env calls s) = constructed s \<and>
      get_client env (run env calls s) = (Inr c, run env calls s))"
proof (intro conjI impI)
  assume "get_client env s = (Inr c, s')"
  then have "client_instance s' = Some c"
    by (rule get_client_returns)
  then show "get_client env s' = (Inr c, s')"
    by (rule get_client_stored)
next
  have "handle_invariant (run env calls initial_process)"
    by (rule run_invariant) (simp add: handle_invariant_def initial_process_def)
  then show "constructed (run env calls initial_process) \<le> 1"
    by (simp add: handle_invariant_def split: option.splits)
next
  assume stored: "client_instance s = Some c"
  show "client_instance (run env calls s) = Some c"
    using run_keeps_handle [OF stored] by simp
  then show "get_client env (run env calls s) = (Inr c, run env calls s)"
    by (rule get_client_stored)
  show "constructed (run env calls s) = constructed s"
    using run_keeps_handle [OF stored] by simp
qed


theorem client_handle_is_constructed_once_witness:
  "get_client (sample_environment (Inr None) sample_loads) initial_process =
     (Inr \<lparr>client_id = 0, api_key = ''sk-sample''\<rparr>,
      \<lparr>client_instance = Some \<lparr>client_id = 0, api_key = ''sk-sample''\<rparr>,
       constructed = 1, sent = [], parsed = []\<rparr>) \<and>
   get_client (sample_environment (Inr None) sample_loads)
     \<lparr>client_instance = Some \<lparr>client_id = 0, api_key = ''sk-sample''\<rparr>,
      constructed = 1, sent = [], parsed = []\<rparr> =
     (Inr \<lparr>client_id = 0, api_key = ''sk-sample''\<rparr>,
      \<lparr>client_instance = Some \<lparr>client_id = 0, api_key = ''sk-sample''\<rparr>,
       constructed = 1, sent = [], parsed = []\<rparr>) \<and>
   constructed (run (sample_environment (Inr None) sample_loads)
     [GetClient, GetResponse ''sad'', GetClient] initial_process) \<le> 1 \<and>
   client_instance (run (sample_environment (Inr None) sample_loads)
     [GetClient, GetResponse ''sad'', GetClient]
     \<lparr>client_instance = Some \<lparr>client_id = 0, api_key = ''sk-sample''\<rparr>,
      constructed = 1, sent = [], parsed = []\<rparr>) =
     Some \<lparr>client_id = 0, api_key = ''sk-sample''\<rparr>"
  using client_handle_is_constructed_once
    [of "sample_environment (Inr None) sample_loads" initial_process
      "\<lparr>client_id = 0, api_key = ''sk-sample''\<rparr>"
      "\<lparr>client_instance = Some \<lparr>client_id = 0, api_key = ''sk-sample''\<rparr>,
        constructed = 1, sent = [], parsed = []\<rparr>"
      "[GetClient, GetResponse ''sad'', GetClient]"]
    client_handle_is_constructed_once
    [of "sample_environment (Inr None) sample_loads"
      "\<lparr>client_instance = Some \<lparr>client_id = 0, api_key = ''sk-sample''\<rparr>,
        constructed = 1, sent = [], parsed = []\<rparr>"
      "\<lparr>client_id = 0, api_key = ''sk-sample''\<rparr>" _
      "[GetClient, GetResponse ''sad'', GetClient]"]
  by (simp add: sample_get_client)

subsection \<open>The outcomes of \<open>get_response\<close>\<close>

lemma messages_distinct:
  "empty_reply_message \<noteq> malformed_reply_message"
  "missing_field_message shown \<noteq> empty_reply_message"
  "missing_field_message shown \<noteq> malformed_reply_message"
  by simp_all

text \<open>
  Claim C1, as the code has it.  Take a call whose reply is as the request asks.  Then
  the call ends in one of these ways, each fixed by what its own collaborators did.
  The secrets provider or the constructor of the client raised: \<open>get_response\<close> lets
  that exception through unchanged.  The remote call raised: \<open>get_response\<close> lets that
  exception through unchanged.  The content of the reply is absent or empty: it raises
  \<open>ValueError\<close> with the message of the empty reply.  The parser raised on the content:
  it raises \<open>ValueError\<close> with the message of the malformed reply.  The content parsed
  to an object without \<open>genres\<close>: it raises \<open>ValueError\<close> with the message of the missing
  key and the text of that object.  The content parsed to an object with \<open>genres\<close>: it
  returns the sequence of strings stored there.  The three messages differ from one
  another, so the three \<open>ValueError\<close>s can be told apart, by their message only.
\<close>

theorem get_response_outcomes:
  assumes "reply_as_requested env inp s"
  shows "((\<exists>e s1. get_client env s = (Inl e, s1) \<and>
             fst (get_response env inp s) = Inl e \<and>
             (get_openai_key env = Inl e \<or>
              (\<exists>key. get_openai_key env = Inr key \<and> openai_init env key = Some e))) \<or>
          (\<exists>client s1 e s2. get_client env s = (Inr client, s1) \<and>
             chat_completions_create env client (completion_request env inp) s1 = (Inl e, s2) \<and>
             fst (get_response env inp s) = Inl e) \<or>
          (\<exists>client s1 response s2 choice0 rest.
             get_client env s = (Inr client, s1) \<and>
             chat_completions_create env client (completion_request env inp) s1 =
               (Inr response, s2) \<and>
             choices response = choice0 # rest \<and>
             ((content (message choice0) = None \<or> content (message choice0) = Some []) \<and>
              fst (get_response env inp s) = Inl (ValueError empty_reply_message) \<or>
              (\<exists>found_content.
                 content (message choice0) = Some found_content \<and> found_content \<noteq> [] \<and>
                 ((\<exists>e. json_loads env found_content = Inl e \<and>
                     fst (get_response env inp s) =
                       Inl (During (ValueError malformed_reply_message) e)) \<or>
                  (\<exists>kvs. json_loads env found_content = Inr (PyDict kvs) \<and>
                     (''genres'' \<notin> set (map fst kvs) \<and>
                      fst (get_response env inp s) =
                        Inl (ValueError (missing_field_message (py_str env (PyDict kvs)))) \<or>
                      (\<exists>v. map_of kvs ''genres'' = Some v \<and> is_string_sequence v \<and>
                         fst (get_response env inp s) = Inr v)))))))) \<and>
         empty_reply_message \<noteq> malformed_reply_message \<and>
         (\<forall>shown. missing_field_message shown \<noteq> empty_reply_message \<and>
            missing_field_message shown \<noteq> malformed_reply_message)"
proof (intro conjI allI)
  obtain r s1 where client: "get_client env s = (r, s1)"
    by (cases "get_client env s")
  show "(\<exists>e s1. get_client env s = (Inl e, s1) \<and>
             fst (get_response env inp s) = Inl e \<and>
             (get_openai_key env = Inl e \<or>
              (\<exists>key. get_openai_key env = Inr key \<and> openai_init env key = Some e))) \<or>
          (\<exists>client s1 e s2. get_client env s = (Inr client, s1) \<and>
             chat_completions_create env client (completion_request env inp) s1 = (Inl e, s2) \<and>
             fst (get_response env inp s) = Inl e) \<or>
          (\<exists>client s1 response s2 choice0 rest.
             get_client env s = (Inr client, s1) \<and>
             chat_completions_create env client (completion_request env inp) s1 =
               (Inr response, s2) \<and>
             choices response = choice0 # rest \<and>
             ((content (message choice0) = None \<or> content (message choice0) = Some []) \<and>
              fst (get_response env inp s) = Inl (ValueError empty_reply_message) \<or>
              (\<exists>found_content.
                 content (message choice0) = Some found_content \<and> found_content \<noteq> [] \<and>
                 ((\<exists>e. json_loads env found_content = Inl e \<and>
                     fst (get_response env inp s) =
                       Inl (During (ValueError malformed_reply_message) e)) \<or>
                  (\<exists>kvs. json_loads env found_content = Inr (PyDict kvs) \<and>
                     (''genres'' \<notin> set (map fst kvs) \<and>
                      fst (get_response env inp s) =
                        Inl (ValueError (missing_field_message (py_str env (PyDict kvs)))) \<or>
                      (\<exists>v. map_of kvs ''genres'' = Some v \<and> is_string_sequence v \<and>
                         fst (get_response env inp s) = Inr v)))))))"
    (is "?secrets \<or> ?remote \<or> ?replied")
  proof (cases r)
    case (Inl e)
    then have "fst (get_response env inp s) = Inl e"
      using client by (simp add: get_response_def)
    moreover have "get_openai_key env = Inl e \<or>
        (\<exists>key. get_openai_key env = Inr key \<and> openai_init env key = Some e)"
      using get_client_raises [of env s e s1] client Inl by simp
    ultimately have ?secrets
      using client Inl by blast
    then show ?thesis by blast
  next
    case (Inr client')
    then have got: "get_client env s = (Inr client', s1)"
      using client by simp
    obtain q s2 where remote:
      "chat_completions_create env client' (completion_request env inp) s1 = (q, s2)"
      by (cases "chat_completions_create env client' (completion_request env inp) s1")
    show ?thesis
    proof (cases q)
      case (Inl e)
      then have "fst (get_response env inp s) = Inl e"
        using got remote by (simp add: get_response_def)
      then have ?remote
        using got remote Inl by blast
      then show ?thesis by blast
    next
      case (Inr response)
      then have issued:
        "chat_completions_create env client' (completion_request env inp) s1 = (Inr response, s2)"
        using remote by simp
      have asked: "case choices response of
            [] \<Rightarrow> False
          | choice0 # rest \<Rightarrow>
              (case content (message choice0) of
                 None \<Rightarrow> True
               | Some found_content \<Rightarrow>
                   found_content = [] \<or>
                   (case json_loads env found_content of
                      Inl e \<Rightarrow> True
                    | Inr content_json \<Rightarrow> genres_object content_json))"
        using assms got issued by (simp add: reply_as_requested_def)
      then obtain choice0 rest where first: "choices response = choice0 # rest"
        by (cases "choices response") auto
      have "(content (message choice0) = None \<or> content (message choice0) = Some []) \<and>
          fst (get_response env inp s) = Inl (ValueError empty_reply_message) \<or>
          (\<exists>found_content.
             content (message choice0) = Some found_content \<and> found_content \<noteq> [] \<and>
             ((\<exists>e. json_loads env found_content = Inl e \<and>
                 fst (get_response env inp s) =
                   Inl (During (ValueError malformed_reply_message) e)) \<or>
              (\<exists>kvs. json_loads env found_content = Inr (PyDict kvs) \<and>
                 (''genres'' \<notin> set (map fst kvs) \<and>
                  fst (get_response env inp s) =
                    Inl (ValueError (missing_field_message (py_str env (PyDict kvs)))) \<or>
                  (\<exists>v. map_of kvs ''genres'' = Some v \<and> is_string_sequence v \<and>
                     fst (get_response env inp s) = Inr v)))))"
        (is "?empty \<or> ?filled")
      proof (cases "content (message choice0) = None \<or> content (message choice0) = Some []")
        case True
        then have ?empty
          using get_response_without_content [OF got issued first] by simp
        then show ?thesis by blast
      next
        case False
        then obtain found_content
          where found: "content (message choice0) = Some found_content" "found_content \<noteq> []"
          by auto
        note executed = get_response_with_content [OF got issued first found]
        have shaped: "case json_loads env found_content of
              Inl e \<Rightarrow> True
            | Inr content_json \<Rightarrow> genres_object content_json"
          using asked first found by simp
        show ?thesis
        proof (cases "json_loads env found_content")
          case (Inl e)
          then have "fst (get_response env inp s) =
              Inl (During (ValueError malformed_reply_message) e)"
            using executed by simp
          then have ?filled
            using found Inl by blast
          then show ?thesis by blast
        next
          case (Inr content_json)
          then have "genres_object content_json"
            using shaped by simp
          then obtain kvs where object: "content_json = PyDict kvs"
            by (cases content_json) auto
          show ?thesis
          proof (cases "map_of kvs ''genres''")
            case None
            then have lacking: "''genres'' \<notin> set (map fst kvs)"
              by (simp add: map_of_eq_None_iff)
            then have "fst (get_response env inp s) =
                Inl (ValueError (missing_field_message (py_str env (PyDict kvs))))"
              using executed Inr object by simp
            then have ?filled
              using found Inr object lacking by blast
            then show ?thesis by blast
          next
            case (Some v)
            then have "''genres'' \<in> set (map fst kvs)"
              by (metis map_of_eq_None_iff option.distinct(1) set_map)
            then have "fst (get_response env inp s) = Inr v"
              using executed Inr object Some by simp
            moreover have "is_string_sequence v"
              using \<open>genres_object content_json\<close> object Some by simp
            ultimately have ?filled
              using found Inr object Some by blast
            then show ?thesis by blast
          qed
        qed
      qed
      then have ?replied
        using got issued first by blast
      then show ?thesis by blast
    qed
  qed
qed (simp_all only: messages_distinct not_False_eq_True)

theorem get_response_outcomes_witness:
  \<open>reply_as_requested
     (sample_environment
      (Inr (Some ''{"genres": ["pop","rock","jazz","blues","folk"]}'')) sample_loads) ''sad'' initial_process \<and>
   ((\<exists>e s1. get_client (sample_environment
      (Inr (Some ''{"genres": ["pop","rock","jazz","blues","folk"]}'')) sample_loads) initial_process = (Inl e, s1) \<and>
             fst (get_response (sample_environment
      (Inr (Some ''{"genres": ["pop","rock","jazz","blues","folk"]}'')) sample_loads) ''sad'' initial_process) = Inl e \<and>
             (get_openai_key (sample_environment
      (Inr (Some ''{"genres": ["pop","rock","jazz","blues","folk"]}'')) sample_loads) = Inl e \<or>
              (\<exists>key. get_openai_key (sample_environment
      (Inr (Some ''{"genres": ["pop","rock","jazz","blues","folk"]}'')) sample_loads) = Inr key \<and> openai_init (sample_environment
      (Inr (Some ''{"genres": ["pop","rock","jazz","blues","folk"]}'')) sample_loads) key = Some e))) \<or>
          (\<exists>client s1 e s2. get_client (sample_environment
      (Inr (Some ''{"genres": ["pop","rock","jazz","blues","folk"]}'')) sample_loads) initial_process = (Inr client, s1) \<and>
             chat_completions_create (sample_environment
      (Inr (Some ''{"genres": ["pop","rock","jazz","blues","folk"]}'')) sample_loads) client (completion_request (sample_environment
      (Inr (Some ''{"genres": ["pop","rock","jazz","blues","folk"]}'')) sample_loads) ''sad'') s1 = (Inl e, s2) \<and>
             fst (get_response (sample_environment
      (Inr (Some ''{"genres": ["pop","rock","jazz","blues","folk"]}'')) sample_loads) ''sad'' initial_process) = Inl e) \<or>
          (\<exists>client s1 response s2 choice0 rest.
             get_client (sample_environment
      (Inr (Some ''{"genres": ["pop","rock","jazz","blues","folk"]}'')) sample_loads) initial_process = (Inr client, s1) \<and>
             chat_completions_create (sample_environment
      (Inr (Some ''{"genres": ["pop","rock","jazz","blues","folk"]}'')) sample_loads) client (completion_request (sample_environment
      (Inr (Some ''{"genres": ["pop","rock","jazz","blues","folk"]}'')) sample_loads) ''sad'') s1 =
               (Inr response, s2) \<and>
             choices response = choice0 # rest \<and>
             ((content (message choice0) = None \<or> content (message choice0) = Some []) \<and>
              fst (get_response (sample_environment
      (Inr (Some ''{"genres": ["pop","rock","jazz","blues","folk"]}'')) sample_loads) ''sad'' initial_process) = Inl (ValueError empty_reply_message) \<or>
              (\<exists>found_content.
                 content (message choice0) = Some found_content \<and> found_content \<noteq> [] \<and>
                 ((\<exists>e. json_loads (sample_environment
      (Inr (Some ''{"genres": ["pop","rock","jazz","blues","folk"]}'')) sample_loads) found_content = Inl e \<and>
                     fst (get_response (sample_environment
      (Inr (Some ''{"genres": ["pop","rock","jazz","blues","folk"]}'')) sample_loads) ''sad'' initial_process) =
                       Inl (During (ValueError malformed_reply_message) e)) \<or>
                  (\<exists>kvs. json_loads (sample_environment
      (Inr (Some ''{"genres": ["pop","rock","jazz","blues","folk"]}'')) sample_loads) found_content = Inr (PyDict kvs) \<and>
                     (''genres'' \<notin> set (map fst kvs) \<and>
                      fst (get_response (sample_environment
      (Inr (Some ''{"genres": ["pop","rock","jazz","blues","folk"]}'')) sample_loads) ''sad'' initial_process) =
                        Inl (ValueError (missing_field_message (py_str (sample_environment
      (Inr (Some ''{"genres": ["pop","rock","jazz","blues","folk"]}'')) sample_loads) (PyDict kvs)))) \<or>
                      (\<exists>v. map_of kvs ''genres'' = Some v \<and> is_string_sequence v \<and>
                         fst (get_response (sample_environment
      (Inr (Some ''{"genres": ["pop","rock","jazz","blues","folk"]}'')) sample_loads) ''sad'' initial_process) = Inr v)))))))) \<and>
         empty_reply_message \<noteq> malformed_reply_message \<and>
         (\<forall>shown. missing_field_message shown \<noteq> empty_reply_message \<and>
            missing_field_message shown \<noteq> malformed_reply_message)\<close>
proof -
  have asked: \<open>reply_as_requested
     (sample_environment
      (Inr (Some ''{"genres": ["pop","rock","jazz","blues","folk"]}'')) sample_loads) ''sad'' initial_process\<close>
    by (simp add: reply_as_requested_def sample_get_client sample_create sample_fields
        sample_loads_def)
  show ?thesis
    by (rule conjI [OF asked get_response_outcomes [OF asked]])
qed

text \<open>
  The claim as the specification words it fails twice.  A reply \<open>{"genres": 5}\<close> makes
  \<open>get_response\<close> return the number 5, which is no sequence of strings.  A remote call
  that raises a connection error makes \<open>get_response\<close> raise that very error, which is
  none of the four documented kinds.
\<close>

theorem get_response_outcome_counterexample:
  \<open>fst (get_response (sample_environment (Inr (Some ''{"genres": 5}'')) sample_loads) ''sad''
     initial_process) = Inr (PyInt 5) \<and>
   \<not> documented_outcome (sample_environment (Inr (Some ''{"genres": 5}'')) sample_loads)
     (fst (get_response (sample_environment (Inr (Some ''{"genres": 5}'')) sample_loads) ''sad''
       initial_process)) \<and>
   fst (get_response
     (sample_environment (Inl (External ''APIConnectionError'' ''Connection error.'')) sample_loads)
     ''sad'' initial_process) = Inl (External ''APIConnectionError'' ''Connection error.'') \<and>
   \<not> documented_outcome
     (sample_environment (Inl (External ''APIConnectionError'' ''Connection error.'')) sample_loads)
     (fst (get_response
       (sample_environment (Inl (External ''APIConnectionError'' ''Connection error.''))
         sample_loads)
       ''sad'' initial_process))\<close>
proof -
  have given: \<open>''{"genres": 5}'' \<noteq> []\<close>
    by simp
  have number:
    \<open>fst (get_response (sample_environment (Inr (Some ''{"genres": 5}'')) sample_loads) ''sad''
       initial_process) = Inr (PyInt 5)\<close>
    using get_response_with_content
      [OF sample_get_client sample_create sample_choice sample_content given]
    by (simp add: sample_fields sample_loads_def)
  have offline:
    "fst (get_response
       (sample_environment (Inl (External ''APIConnectionError'' ''Connection error.''))
         sample_loads)
       ''sad'' initial_process) = Inl (External ''APIConnectionError'' ''Connection error.'')"
    by (simp add: get_response_def sample_get_client chat_completions_create_def)
      (simp add: sample_environment_def)
  show ?thesis
    unfolding number offline
    by (simp add: documented_outcome_def documented_failure_def sample_fields)
qed

end
